theory Spec2Isabelle
  imports Complex_Main "HOL-Library.Multiset"
begin

section \<open>Data model (types.ts)\<close>

text \<open>
  JavaScript numbers are modelled as real numbers: the geometry below is linear
  interpolation and Euclidean distance, and every law about it is stated in exact
  arithmetic. The fields \<open>x\<close>, \<open>y\<close> of a Point, and \<open>id\<close>, \<open>name\<close>, \<open>floor\<close>
  of an Elevator or FloorPlan carry a prefix, since a record field is a constant.
\<close>

record Point =
  pt_x :: real
  pt_y :: real

record GeoPoint =
  latitude :: real
  longitude :: real

record Elevator =
  elev_id :: string
  elev_name :: string
  location :: Point
  elev_floor :: string

record Dimensions =
  width :: real
  height :: real

record FloorPlan =
  plan_id :: string
  plan_name :: string
  imageUrl :: string
  elevators :: "Elevator list"
  dimensions :: Dimensions

record GeoBounds =
  northWest :: GeoPoint
  southEast :: GeoPoint

section \<open>Constants (constants.ts)\<close>

definition FLOOR_PLAN_GEO_BOUNDS :: GeoBounds where
  "FLOOR_PLAN_GEO_BOUNDS =
     \<lparr>northWest = \<lparr>latitude = 34.0529, longitude = -118.2445\<rparr>,
      southEast = \<lparr>latitude = 34.0520, longitude = -118.2425\<rparr>\<rparr>"

definition MARKER_SIZE :: real where
  "MARKER_SIZE = 20"

definition ARRIVAL_THRESHOLD_PIXELS :: real where
  "ARRIVAL_THRESHOLD_PIXELS = 25"

section \<open>Geometry (services/navigationService.ts)\<close>

definition calculateDistance :: "Point \<Rightarrow> Point \<Rightarrow> real" where
  "calculateDistance p1 p2 = sqrt ((pt_x p1 - pt_x p2)\<^sup>2 + (pt_y p1 - pt_y p2)\<^sup>2)"

text \<open>
  The scan of \<open>findNearestElevator\<close> keeps the pair (nearestElevator, minDistance).
  minDistance starts at Infinity, written \<open>None\<close> here: every distance is below it.
\<close>

definition below_min :: "real \<Rightarrow> real option \<Rightarrow> bool" where
  "below_min d m = (case m of None \<Rightarrow> True | Some v \<Rightarrow> d < v)"

fun nearest_scan ::
  "Point \<Rightarrow> Elevator list \<Rightarrow> Elevator option \<times> real option \<Rightarrow> Elevator option \<times> real option"
where
  "nearest_scan u [] acc = acc"
| "nearest_scan u (e # es) (nearest, minDistance) =
     (let distance = calculateDistance u (location e)
      in if below_min distance minDistance
         then nearest_scan u es (Some e, Some distance)
         else nearest_scan u es (nearest, minDistance))"

definition findNearestElevator :: "Point \<Rightarrow> Elevator list \<Rightarrow> Elevator option" where
  "findNearestElevator userLocation es =
     (if es = [] then None else fst (nearest_scan userLocation es (None, None)))"

definition calculatePath :: "Point \<Rightarrow> Point \<Rightarrow> Point list" where
  "calculatePath start end = [start, end]"

definition mapRange :: "real \<Rightarrow> real \<Rightarrow> real \<Rightarrow> real \<Rightarrow> real \<Rightarrow> real" where
  "mapRange v inMin inMax outMin outMax =
     (if inMin = inMax then (outMin + outMax) / 2
      else ((v - inMin) * (outMax - outMin)) / (inMax - inMin) + outMin)"

definition mapGeoToPixel :: "GeoPoint \<Rightarrow> GeoBounds \<Rightarrow> Dimensions \<Rightarrow> Point option" where
  "mapGeoToPixel geoPoint bounds imageDimensions =
     (let lat = latitude geoPoint; lon = longitude geoPoint;
          nw = northWest bounds; se = southEast bounds;
          isLatOutOfBounds = (lat > latitude nw \<or> lat < latitude se);
          isLonOutOfBounds = (lon < longitude nw \<or> lon > longitude se)
      in if isLatOutOfBounds \<or> isLonOutOfBounds then None
         else
           let x = mapRange lon (longitude nw) (longitude se) 0 (width imageDimensions);
               y = mapRange lat (latitude nw) (latitude se) 0 (height imageDimensions);
               clampedX = max 0 (min x (width imageDimensions));
               clampedY = max 0 (min y (height imageDimensions))
           in Some \<lparr>pt_x = clampedX, pt_y = clampedY\<rparr>)"

text \<open>
  \<open>mapPixelToGeo\<close> returns null only when a computed coordinate is NaN, which real
  arithmetic does not produce; its range check on the pixel has an empty body.
\<close>

definition mapPixelToGeo :: "Point \<Rightarrow> GeoBounds \<Rightarrow> Dimensions \<Rightarrow> GeoPoint option" where
  "mapPixelToGeo pixelPoint bounds imageDimensions =
     (let lon = mapRange (pt_x pixelPoint) 0 (width imageDimensions)
                  (longitude (northWest bounds)) (longitude (southEast bounds));
          lat = mapRange (pt_y pixelPoint) 0 (height imageDimensions)
                  (latitude (northWest bounds)) (latitude (southEast bounds))
      in Some \<lparr>latitude = lat, longitude = lon\<rparr>)"

section \<open>Application state (App.tsx)\<close>

text \<open>
  The repository holds two copies of App.tsx, both under src/frontend/App.tsx: lines
  1 to 665 (\<open>ListingA\<close>) and lines 667 to 1351 (\<open>ListingB\<close>). They differ in the
  prompt text and in what \<open>fetchAiPathAndInstructions\<close> does once the backend has
  answered; the handlers are the same.
\<close>

datatype listing = ListingA | ListingB

text \<open>
  The status line is free text built from templates. Each template is a constructor
  whose arguments are the values interpolated into it:
  \<^item> \<open>InitialAppStatus\<close>: "Please upload a floor plan to get started."
  \<^item> \<open>NavigationCancelled n\<close>: "GPS navigation to n cancelled."
  \<^item> \<open>NavigationStopped\<close>: "GPS navigation stopped. Click map or an elevator to restart."
  \<^item> \<open>AiUnavailable\<close>: "AI pathfinding unavailable (AI client or image missing). Showing straight line."
  \<^item> \<open>AiPlanning n\<close>: "AI is planning your route to n..."
  \<^item> \<open>AiPathGenerated n\<close>: "AI path to n generated. Follow instructions."
  \<^item> \<open>AiNoMultiSegmentPath n\<close>: "AI could not determine a multi-segment path for n. Showing straight line."
  \<^item> \<open>AiPathfindingFailed n\<close>: "AI pathfinding failed for n. Showing straight line."
  \<^item> \<open>CannotProcessGps\<close>: "Cannot process GPS location: Floor plan not fully loaded."
  \<^item> \<open>GpsMapped c g\<close>: the context message c, or "GPS Updated: (lat, lon). Mapped to plan."
    when there is none, followed by the note that the mapping is approximate
  \<^item> \<open>ArrivedAt n\<close>: "Arrived at n!"
  \<^item> \<open>NavigatingTo n\<close>: "Navigating to n... User location updated by GPS."
  \<^item> \<open>OutsideMappedArea g\<close>: "GPS: (lat, lon). Your location appears outside the mapped area of this plan."
  \<^item> \<open>NavigatingOutsideMappedArea n\<close>: "Navigating to n: User appears outside mapped area."
  \<^item> \<open>ManualLocationSet\<close>: "Manual location set. GPS navigation stopped."
  \<^item> \<open>NoElevatorsFound\<close>: "Location set manually. No elevators found or defined for this plan."
  \<^item> \<open>Targeting n g\<close>: "Targeting n. ... Set your location (click map) to start navigation and get AI path."
  \<^item> \<open>GpsNotSupported\<close>: "GPS not supported. Click map to set location."
  \<^item> \<open>AttemptingInitialGps\<close>: "Attempting initial GPS location for current plan..."
\<close>

datatype status =
    InitialAppStatus
  | NavigationCancelled string
  | NavigationStopped
  | AiUnavailable
  | AiPlanning string
  | AiPathGenerated string
  | AiNoMultiSegmentPath string
  | AiPathfindingFailed string
  | CannotProcessGps
  | GpsMapped "string option" GeoPoint
  | ArrivedAt string
  | NavigatingTo string
  | OutsideMappedArea GeoPoint
  | NavigatingOutsideMappedArea string
  | ManualLocationSet
  | NoElevatorsFound
  | Targeting string "GeoPoint option"
  | GpsNotSupported
  | AttemptingInitialGps

record AppState =
  currentFloorPlan :: "FloorPlan option"
  userLocation :: "Point option"
  userGeoLocation :: "GeoPoint option"
  gpsStatus :: status
  isGpsDerived :: bool
  isAnalyzingPlan :: bool
  nearestElevator :: "Elevator option"
  selectedElevator :: "Elevator option"
  path :: "Point list option"
  aiPathInstructions :: "string list option"
  isFetchingAiPath :: bool
  isNavigatingWithGps :: bool
  targetElevatorGps :: "GeoPoint option"
  gpsWatchId :: "nat option"

text \<open>
  A handler is a closure over the state of the render that created it: it reads that
  snapshot and calls state setters and external services. It is modelled as the list
  of calls it makes, in order, as a function of the snapshot. The setters it calls act
  on the state as it is when the handler runs, which is a later state than the
  snapshot when the handler belongs to an older render; so the state after a handler
  with snapshot \<open>sn\<close> has run in state \<open>s\<close> is \<open>run (handler sn) s\<close>.
  \<open>ClearWatch\<close> is \<open>navigator.geolocation.clearWatch\<close>, \<open>GetCurrentPosition\<close> is
  \<open>navigator.geolocation.getCurrentPosition\<close>, which registers the callbacks of a
  one-shot lookup, and \<open>GenerateContent\<close> is the request
  \<open>ai.models.generateContent\<close> sent to the planning backend.
\<close>

datatype action =
    SetUserLocation "Point option"
  | SetUserGeoLocation "GeoPoint option"
  | SetGpsStatus status
  | SetIsGpsDerived bool
  | SetNearestElevator "Elevator option"
  | SetSelectedElevator "Elevator option"
  | SetPath "Point list option"
  | SetAiPathInstructions "string list option"
  | SetIsFetchingAiPath bool
  | SetIsNavigatingWithGps bool
  | SetTargetElevatorGps "GeoPoint option"
  | SetGpsWatchId "nat option"
  | ClearWatch nat
  | GetCurrentPosition
  | GenerateContent Point Elevator FloorPlan

fun apply_action :: "action \<Rightarrow> AppState \<Rightarrow> AppState" where
  "apply_action (SetUserLocation v) s = s\<lparr>userLocation := v\<rparr>"
| "apply_action (SetUserGeoLocation v) s = s\<lparr>userGeoLocation := v\<rparr>"
| "apply_action (SetGpsStatus v) s = s\<lparr>gpsStatus := v\<rparr>"
| "apply_action (SetIsGpsDerived v) s = s\<lparr>isGpsDerived := v\<rparr>"
| "apply_action (SetNearestElevator v) s = s\<lparr>nearestElevator := v\<rparr>"
| "apply_action (SetSelectedElevator v) s = s\<lparr>selectedElevator := v\<rparr>"
| "apply_action (SetPath v) s = s\<lparr>path := v\<rparr>"
| "apply_action (SetAiPathInstructions v) s = s\<lparr>aiPathInstructions := v\<rparr>"
| "apply_action (SetIsFetchingAiPath v) s = s\<lparr>isFetchingAiPath := v\<rparr>"
| "apply_action (SetIsNavigatingWithGps v) s = s\<lparr>isNavigatingWithGps := v\<rparr>"
| "apply_action (SetTargetElevatorGps v) s = s\<lparr>targetElevatorGps := v\<rparr>"
| "apply_action (SetGpsWatchId v) s = s\<lparr>gpsWatchId := v\<rparr>"
| "apply_action (ClearWatch w) s = s"
| "apply_action GetCurrentPosition s = s"
| "apply_action (GenerateContent start target plan) s = s"

fun run :: "action list \<Rightarrow> AppState \<Rightarrow> AppState" where
  "run [] s = s"
| "run (a # as) s = run as (apply_action a s)"

subsection \<open>stopGpsNavigation\<close>

definition stopGpsNavigation :: "status option \<Rightarrow> AppState \<Rightarrow> action list" where
  "stopGpsNavigation message s =
     [SetIsNavigatingWithGps False] @
     (case gpsWatchId s of
        Some w \<Rightarrow> [ClearWatch w, SetGpsWatchId None]
      | None \<Rightarrow> []) @
     [SetGpsStatus
        (case message of
           Some m \<Rightarrow> m
         | None \<Rightarrow>
             (case selectedElevator s of
                Some e \<Rightarrow> NavigationCancelled (elev_name e)
              | None \<Rightarrow>
                  (case currentFloorPlan s of
                     Some plan \<Rightarrow> NavigationStopped
                   | None \<Rightarrow> InitialAppStatus)))]"

subsection \<open>fetchAiPathAndInstructions\<close>

text \<open>
  What the awaited backend call and the parsing of its answer can come to.
  \<open>Failed\<close>: the call rejects or times out, the answer has no text, \<open>JSON.parse\<close>
  throws, or the parsed value is not an object. \<open>Parsed pc ins\<close>: a parsed object;
  \<open>pc\<close> is its \<open>path_coordinates\<close> (\<open>None\<close> when missing or falsy, otherwise
  the array of points that the interface \<open>AiPathResponse\<close> declares), \<open>ins\<close> its
  \<open>step_by_step_instructions\<close> (\<open>None\<close> when not an array). The awaited call is
  taken to fail, when it fails, by rejecting its promise.
\<close>

datatype backend_result =
    Failed
  | Parsed "Point list option" "string list option"

text \<open>
  The asynchronous function runs in two parts. \<open>fetch_sync\<close> is what runs when it is
  called, up to the \<open>await\<close>: either the early return when the client or the image is
  missing (\<open>ai\<close> is whether the module-level client exists), or the setters before
  the request and the request itself. \<open>fetch_resume\<close> is what runs when the
  awaited call has settled: the rest of the \<open>try\<close> block, or the \<open>catch\<close> block,
  and then the \<open>finally\<close> block.
\<close>

definition fetch_sync :: "bool \<Rightarrow> Point \<Rightarrow> Elevator \<Rightarrow> FloorPlan \<Rightarrow> action list" where
  "fetch_sync ai currentUserLocation targetElevator plan =
     (if \<not> ai \<or> imageUrl plan = [] then
        [SetGpsStatus AiUnavailable,
         SetPath (Some (calculatePath currentUserLocation (location targetElevator))),
         SetAiPathInstructions (Some [''AI pathfinding is currently unavailable.''])]
      else
        [SetIsFetchingAiPath True,
         SetAiPathInstructions None,
         SetPath None,
         SetGpsStatus (AiPlanning (elev_name targetElevator)),
         GenerateContent currentUserLocation targetElevator plan])"

definition catch_instructions :: "listing \<Rightarrow> string list" where
  "catch_instructions v =
     [(case v of
         ListingA \<Rightarrow> ''AI was unable to determine a detailed path.''
       | ListingB \<Rightarrow> ''AI pathfinding system encountered an error.''),
      ''A straight line to the elevator is shown on the map.'',
      ''Please use visual cues on the floor plan to navigate.'']"

definition catch_block :: "listing \<Rightarrow> Point \<Rightarrow> Elevator \<Rightarrow> action list" where
  "catch_block v currentUserLocation targetElevator =
     [SetGpsStatus (AiPathfindingFailed (elev_name targetElevator)),
      SetPath (Some (calculatePath currentUserLocation (location targetElevator))),
      SetAiPathInstructions (Some (catch_instructions v))]"

definition finally_block :: "action list" where
  "finally_block = [SetIsFetchingAiPath False]"

definition validatedPath :: "Point list \<Rightarrow> Point \<Rightarrow> Elevator \<Rightarrow> Point list" where
  "validatedPath path_coordinates currentUserLocation targetElevator =
     (path_coordinates[0 := currentUserLocation])
       [length path_coordinates - 1 := location targetElevator]"

definition success_block :: "Point list \<Rightarrow> string list \<Rightarrow> Point \<Rightarrow> Elevator \<Rightarrow> action list" where
  "success_block path_coordinates instructions currentUserLocation targetElevator =
     [SetPath (Some (validatedPath path_coordinates currentUserLocation targetElevator)),
      SetAiPathInstructions (Some instructions),
      SetGpsStatus (AiPathGenerated (elev_name targetElevator))]"

definition partial_instructions :: "string list" where
  "partial_instructions =
     [''AI was unable to determine a detailed path.'',
      ''A straight line to the elevator is shown on the map.'']"

fun fetch_resume :: "listing \<Rightarrow> backend_result \<Rightarrow> Point \<Rightarrow> Elevator \<Rightarrow> action list" where
  "fetch_resume ListingA (Parsed (Some pc) (Some ins)) start target =
     (if 2 \<le> length pc \<and> 0 < length ins
      then success_block pc ins start target @ finally_block
      else catch_block ListingA start target @ finally_block)"
| "fetch_resume ListingB (Parsed (Some pc) (Some ins)) start target =
     (if 2 \<le> length pc \<and> 0 < length ins
      then success_block pc ins start target @ finally_block
      else
        [SetGpsStatus (AiNoMultiSegmentPath (elev_name target)),
         SetPath (Some (calculatePath start (location target))),
         SetAiPathInstructions (Some (if 0 < length ins then ins else partial_instructions))]
        @ finally_block)"
| "fetch_resume v r start target = catch_block v start target @ finally_block"

text \<open>
  One whole invocation, from the call to its completion, given what the backend call
  will come to (which matters only when the request is sent).
\<close>

definition fetchAiPathAndInstructions ::
  "listing \<Rightarrow> bool \<Rightarrow> backend_result \<Rightarrow> Point \<Rightarrow> Elevator \<Rightarrow> FloorPlan \<Rightarrow> action list"
where
  "fetchAiPathAndInstructions v ai r currentUserLocation targetElevator plan =
     (if \<not> ai \<or> imageUrl plan = []
      then fetch_sync ai currentUserLocation targetElevator plan
      else fetch_sync ai currentUserLocation targetElevator plan
           @ fetch_resume v r currentUserLocation targetElevator)"

subsection \<open>processGpsLocation\<close>

text \<open>
  The branch taken while navigating to \<open>sel\<close> when the user has not arrived
  (lines 222 to 235): slide the first point of an existing path, or request a path
  when there are no instructions, no request is pending and the user has moved more
  than two marker sizes (or had no location), or else show the straight line unless a
  request is pending.
\<close>

definition maintain_path ::
  "bool \<Rightarrow> AppState \<Rightarrow> FloorPlan \<Rightarrow> Elevator \<Rightarrow> Point \<Rightarrow> action list"
where
  "maintain_path ai s plan sel pixelLocation =
     (let otherwise =
            (if aiPathInstructions s = None \<and> \<not> isFetchingAiPath s \<and>
                (case userLocation s of
                   None \<Rightarrow> True
                 | Some oldUserLocation \<Rightarrow>
                     calculateDistance pixelLocation oldUserLocation > MARKER_SIZE * 2)
             then fetch_sync ai pixelLocation sel plan
             else if \<not> isFetchingAiPath s
             then [SetPath (Some (calculatePath pixelLocation (location sel)))]
             else [])
      in case (aiPathInstructions s, path s) of
           (Some ins, Some p) \<Rightarrow>
             if 0 < length p then [SetPath (Some (p[0 := pixelLocation]))] else otherwise
         | _ \<Rightarrow> otherwise)"

definition processGpsLocation ::
  "bool \<Rightarrow> GeoPoint \<Rightarrow> string option \<Rightarrow> AppState \<Rightarrow> action list"
where
  "processGpsLocation ai geoPoint contextMessage s =
     (case currentFloorPlan s of
        None \<Rightarrow> [SetGpsStatus CannotProcessGps]
      | Some plan \<Rightarrow>
          if width (dimensions plan) = 0 then [SetGpsStatus CannotProcessGps]
          else
            SetUserGeoLocation (Some geoPoint) #
            (case mapGeoToPixel geoPoint FLOOR_PLAN_GEO_BOUNDS (dimensions plan) of
               Some pixelLocation \<Rightarrow>
                 [SetUserLocation (Some pixelLocation), SetIsGpsDerived True] @
                 (case selectedElevator s of
                    Some sel \<Rightarrow>
                      if isNavigatingWithGps s then
                        (if calculateDistance pixelLocation (location sel)
                              < ARRIVAL_THRESHOLD_PIXELS
                         then stopGpsNavigation (Some (ArrivedAt (elev_name sel))) s @
                              [SetPath None, SetGpsStatus (ArrivedAt (elev_name sel))]
                         else maintain_path ai s plan sel pixelLocation @
                              [SetGpsStatus (NavigatingTo (elev_name sel))])
                      else if \<not> isFetchingAiPath s then
                        fetch_sync ai pixelLocation sel plan @
                        [SetGpsStatus (GpsMapped contextMessage geoPoint)]
                      else [SetGpsStatus (GpsMapped contextMessage geoPoint)]
                  | None \<Rightarrow>
                      if \<not> isFetchingAiPath s then
                        (let nearest = findNearestElevator pixelLocation (elevators plan)
                         in SetNearestElevator nearest #
                            (case nearest of
                               Some n \<Rightarrow>
                                 [SetPath (Some (calculatePath pixelLocation (location n)))]
                             | None \<Rightarrow> []) @
                            [SetGpsStatus (GpsMapped contextMessage geoPoint)])
                      else [SetGpsStatus (GpsMapped contextMessage geoPoint)])
             | None \<Rightarrow>
                 [SetIsGpsDerived False,
                  SetGpsStatus
                    (case selectedElevator s of
                       Some sel \<Rightarrow>
                         if isNavigatingWithGps s
                         then NavigatingOutsideMappedArea (elev_name sel)
                         else OutsideMappedArea geoPoint
                     | None \<Rightarrow> OutsideMappedArea geoPoint)]))"

subsection \<open>handleManualMapClick and handleElevatorClick\<close>

definition handleManualMapClick :: "bool \<Rightarrow> Point \<Rightarrow> AppState \<Rightarrow> action list" where
  "handleManualMapClick ai point s =
     (if isAnalyzingPlan s \<or> currentFloorPlan s = None \<or> isFetchingAiPath s then []
      else
        (case currentFloorPlan s of
           None \<Rightarrow> []
         | Some plan \<Rightarrow>
             stopGpsNavigation (Some ManualLocationSet) s @
             [SetUserLocation (Some point), SetIsGpsDerived False, SetAiPathInstructions None] @
             (case findNearestElevator point (elevators plan) of
                Some nearest \<Rightarrow>
                  [SetSelectedElevator (Some nearest)] @
                  fetch_sync ai point nearest plan @
                  [SetTargetElevatorGps
                     (mapPixelToGeo (location nearest) FLOOR_PLAN_GEO_BOUNDS (dimensions plan)),
                   SetIsNavigatingWithGps True]
              | None \<Rightarrow>
                  [SetSelectedElevator None, SetPath None, SetTargetElevatorGps None,
                   SetGpsStatus NoElevatorsFound])))"

definition handleElevatorClick :: "bool \<Rightarrow> string \<Rightarrow> AppState \<Rightarrow> action list" where
  "handleElevatorClick ai elevatorId s =
     (case currentFloorPlan s of
        None \<Rightarrow> []
      | Some plan \<Rightarrow>
          if isAnalyzingPlan s \<or> elevators plan = [] \<or> isFetchingAiPath s then []
          else
            (case List.find (\<lambda>e. elev_id e = elevatorId) (elevators plan) of
               None \<Rightarrow> []
             | Some elevator \<Rightarrow>
                 (let elevGps =
                        mapPixelToGeo (location elevator) FLOOR_PLAN_GEO_BOUNDS (dimensions plan)
                  in stopGpsNavigation None s @
                     [SetSelectedElevator (Some elevator), SetAiPathInstructions None,
                      SetTargetElevatorGps elevGps] @
                     (case userLocation s of
                        Some ul \<Rightarrow>
                          fetch_sync ai ul elevator plan @ [SetIsNavigatingWithGps True]
                      | None \<Rightarrow>
                          [SetPath None, SetGpsStatus (Targeting (elev_name elevator) elevGps)]))))"

subsection \<open>The effect that starts the one-shot location lookup\<close>

text \<open>
  The effect at lines 258 to 275 runs after every render in which the plan or the
  identity of \<open>processGpsLocation\<close> has changed, that is, in which one of the plan,
  the navigation flag, the selected elevator, the watch id, the instructions, the
  pending flag, the path or the user location has changed. \<open>geolocation\<close> is whether
  the browser has \<open>navigator.geolocation\<close>. The lookup it starts is never cancelled.
  When the lookup is answered, its success callback calls the \<open>processGpsLocation\<close> of
  the render that started it, with the context message "Initial GPS location acquired
  for current plan.".
\<close>

definition lookupEffect :: "bool \<Rightarrow> AppState \<Rightarrow> action list" where
  "lookupEffect geolocation s =
     (case currentFloorPlan s of
        None \<Rightarrow> [SetGpsStatus InitialAppStatus]
      | Some plan \<Rightarrow>
          if \<not> geolocation then [SetGpsStatus GpsNotSupported]
          else [SetGpsStatus AttemptingInitialGps, GetCurrentPosition])"

subsection \<open>The effect that derives the nearest elevator and the straight path\<close>

definition deriveEffect :: "AppState \<Rightarrow> action list" where
  "deriveEffect s =
     (case (userLocation s, currentFloorPlan s) of
        (Some ul, Some plan) \<Rightarrow>
          (case selectedElevator s of
             None \<Rightarrow>
               (let foundNearest = findNearestElevator ul (elevators plan)
                in SetNearestElevator foundNearest #
                   (case foundNearest of
                      Some n \<Rightarrow>
                        if \<not> isFetchingAiPath s \<and> aiPathInstructions s = None
                        then [SetPath (Some (calculatePath ul (location n)))] else []
                    | None \<Rightarrow> if \<not> isFetchingAiPath s then [SetPath None] else []))
           | Some sel \<Rightarrow>
               SetNearestElevator None #
               (if \<not> isFetchingAiPath s \<and> aiPathInstructions s = None
                then [SetPath (Some (calculatePath ul (location sel)))] else []))
      | _ \<Rightarrow> SetNearestElevator None # (if \<not> isFetchingAiPath s then [SetPath None] else []))"

section \<open>Callbacks as transitions\<close>

text \<open>
  The world is the application state and the requests sent to the planning backend
  that have not settled yet, oldest first. A step is what one callback does to the
  world:
  \<^item> a tap on the map or on an elevator marker; the handler belongs to the latest
    render, so its snapshot is the current state;
  \<^item> a location fix delivered to the \<open>processGpsLocation\<close> of the render whose
    state was \<open>sn\<close>, with the context message \<open>c\<close>. For the callback of the location
    watch that is the render that started the watch; for the callback of a one-shot
    lookup it is the render that started the lookup, however long ago, so \<open>sn\<close> can
    be older than the current state;
  \<^item> the settling of one of the outstanding requests, the \<open>n\<close>-th, with some result
    (nothing happens when there is no such request);
  \<^item> a run of the deriving effect or of the lookup effect, in a browser with
    geolocation, on the current state.
  The effect that starts and stops the location watch and stores its id (lines 277 to
  309), the stop button and the upload of a plan are not steps here; the theorems
  below do not depend on which sequences of steps can occur.
\<close>

datatype event =
    MapClick Point
  | ElevatorClick string
  | LocationFix GeoPoint "string option" AppState
  | Settle nat backend_result
  | Derive
  | Lookup

fun requests :: "action list \<Rightarrow> (Point \<times> Elevator) list" where
  "requests [] = []"
| "requests (GenerateContent start target plan # as) = (start, target) # requests as"
| "requests (a # as) = requests as"

definition handle :: "action list \<Rightarrow> AppState \<times> (Point \<times> Elevator) list
    \<Rightarrow> AppState \<times> (Point \<times> Elevator) list" where
  "handle acts w = (run acts (fst w), snd w @ requests acts)"

fun step :: "listing \<Rightarrow> bool \<Rightarrow> event \<Rightarrow> AppState \<times> (Point \<times> Elevator) list
    \<Rightarrow> AppState \<times> (Point \<times> Elevator) list" where
  "step v ai (MapClick p) (s, pending) = handle (handleManualMapClick ai p s) (s, pending)"
| "step v ai (ElevatorClick i) (s, pending) = handle (handleElevatorClick ai i s) (s, pending)"
| "step v ai (LocationFix g c sn) (s, pending) = handle (processGpsLocation ai g c sn) (s, pending)"
| "step v ai Derive (s, pending) = handle (deriveEffect s) (s, pending)"
| "step v ai Lookup (s, pending) = handle (lookupEffect True s) (s, pending)"
| "step v ai (Settle n r) (s, pending) =
     (if n < length pending
      then (run (fetch_resume v r (fst (pending ! n)) (snd (pending ! n))) s,
            take n pending @ drop (Suc n) pending)
      else (s, pending))"

subsection \<open>Observations on a list of calls\<close>

text \<open>
  The values written to the pending flag \<open>isFetchingAiPath\<close> by a list of calls, in
  order.
\<close>

fun flag_writes :: "action list \<Rightarrow> bool list" where
  "flag_writes [] = []"
| "flag_writes (SetIsFetchingAiPath b # as) = b # flag_writes as"
| "flag_writes (a # as) = flag_writes as"

text \<open>
  What the backend call comes to when it throws, times out or returns something that
  does not have the structure asked for.
\<close>

fun unusable :: "backend_result \<Rightarrow> bool" where
  "unusable Failed = True"
| "unusable (Parsed None ins) = True"
| "unusable (Parsed pc None) = True"
| "unusable (Parsed (Some pc) (Some ins)) = False"

text \<open>The status lines that tell the user the fix is outside the mapped area.\<close>

fun outside_mapped_area :: "status \<Rightarrow> bool" where
  "outside_mapped_area (OutsideMappedArea g) = True"
| "outside_mapped_area (NavigatingOutsideMappedArea n) = True"
| "outside_mapped_area st = False"

subsection \<open>The scenario of the specification\<close>

text \<open>
  An 800 by 600 plan with one elevator E1 at (700, 500), the user at (100, 100),
  navigating to E1 with location watch 1 active and the AI path stored.
\<close>

definition E1 :: Elevator where
  "E1 = \<lparr>elev_id = ''E1'', elev_name = ''E1'', location = \<lparr>pt_x = 700, pt_y = 500\<rparr>,
         elev_floor = ''1''\<rparr>"

definition plan1 :: FloorPlan where
  "plan1 = \<lparr>plan_id = ''custom-1'', plan_name = ''plan'',
            imageUrl = ''data:image/png;base64,AAAA'', elevators = [E1],
            dimensions = \<lparr>width = 800, height = 600\<rparr>\<rparr>"

definition idle :: AppState where
  "idle = \<lparr>currentFloorPlan = Some plan1, userLocation = None, userGeoLocation = None,
           gpsStatus = InitialAppStatus, isGpsDerived = False, isAnalyzingPlan = False,
           nearestElevator = None, selectedElevator = None, path = None,
           aiPathInstructions = None, isFetchingAiPath = False,
           isNavigatingWithGps = False, targetElevatorGps = None, gpsWatchId = None\<rparr>"

definition navigating :: AppState where
  "navigating = idle
     \<lparr>userLocation := Some \<lparr>pt_x = 100, pt_y = 100\<rparr>,
      selectedElevator := Some E1,
      path := Some [\<lparr>pt_x = 100, pt_y = 100\<rparr>, \<lparr>pt_x = 400, pt_y = 100\<rparr>,
                    \<lparr>pt_x = 700, pt_y = 500\<rparr>],
      aiPathInstructions := Some [''Walk along the corridor.'', ''The elevator is on your right.''],
      isNavigatingWithGps := True,
      gpsWatchId := Some 1\<rparr>"

text \<open>The fixes that the default bounds map to the pixels (695, 505) and (600, 400).\<close>

definition fix_near :: GeoPoint where
  "fix_near = \<lparr>latitude = 34.0521425, longitude = -118.2427625\<rparr>"

definition fix_far :: GeoPoint where
  "fix_far = \<lparr>latitude = 34.0523, longitude = -118.2430\<rparr>"

text \<open>A fix north of the bounds.\<close>

definition fix_outside :: GeoPoint where
  "fix_outside = \<lparr>latitude = 34.06, longitude = -118.2435\<rparr>"





text \<open>
  A lookup answered late. In the idle state, with no location known, the user taps the
  marker of E1; the render that follows has a new selected elevator, so the lookup
  effect runs and starts a one-shot lookup whose callback belongs to that render
  (\<open>targeted\<close>). Before the lookup is answered the user taps the map at (100, 100)
  and the request for a path to E1 is sent (\<open>requested\<close>). Then the lookup is
  answered with the far fix (\<open>answered\<close>).
\<close>

definition lookup_message :: string where
  "lookup_message = ''Initial GPS location acquired for current plan.''"

definition targeted :: AppState where
  "targeted = (let s = run (handleElevatorClick True ''E1'' idle) idle
               in run (deriveEffect s) s)"

definition requested :: AppState where
  "requested = (let s0 = run (lookupEffect True targeted) targeted;
                    s = run (handleManualMapClick True \<lparr>pt_x = 100, pt_y = 100\<rparr> s0) s0
                in run (deriveEffect s) s)"

definition answered :: AppState where
  "answered = run (processGpsLocation True fix_far (Some lookup_message) targeted) requested"

section \<open>Properties of the geometry\<close>

lemma mapRange_inverse:
  assumes "a \<noteq> b" "c \<noteq> d"
  shows "mapRange (mapRange v a b c d) c d a b = v"
proof -
  have "mapRange v a b c d - c = (v - a) * (d - c) / (b - a)"
    using assms by (simp add: mapRange_def)
  then have "mapRange (mapRange v a b c d) c d a b =
      ((v - a) * (d - c) / (b - a)) * (b - a) / (d - c) + a"
    using assms by (simp add: mapRange_def)
  also have "\<dots> = v" using assms by simp
  finally show ?thesis .
qed

lemma mapRange_formula:
  "a \<noteq> b \<Longrightarrow> mapRange v a b c d = c + (v - a) / (b - a) * (d - c)"
  by (simp add: mapRange_def)

lemma fraction_unit:
  fixes a b v :: real
  assumes "a \<noteq> b" "min a b \<le> v" "v \<le> max a b"
  shows "0 \<le> (v - a) / (b - a) \<and> (v - a) / (b - a) \<le> 1"
proof (cases "a < b")
  case True
  then show ?thesis using assms by (simp add: min_def max_def divide_le_eq)
next
  case False
  then have ba: "b < a" using assms by simp
  have "(v - a) / (b - a) = (a - v) / (a - b)"
    by (metis minus_diff_eq minus_divide_divide)
  then show ?thesis using ba assms by (simp add: min_def max_def divide_le_eq)
qed

lemma mapRange_within:
  assumes "a \<noteq> b" "min a b \<le> v" "v \<le> max a b"
  shows "min c d \<le> mapRange v a b c d \<and> mapRange v a b c d \<le> max c d"
proof -
  define t where "t = (v - a) / (b - a)"
  have t: "0 \<le> t" "t \<le> 1" using fraction_unit [OF assms] by (simp_all add: t_def)
  have eq: "mapRange v a b c d = c + t * (d - c)"
    using assms(1) by (simp add: mapRange_formula t_def)
  show ?thesis
  proof (cases "c \<le> d")
    case True
    have nonneg: "0 \<le> t * (d - c)" using t True by simp
    have "t * (d - c) \<le> 1 * (d - c)"
      using t True by (intro mult_right_mono) simp_all
    then have le: "t * (d - c) \<le> d - c" by simp
    have "c \<le> mapRange v a b c d" using eq nonneg by linarith
    moreover have "mapRange v a b c d \<le> d" using eq le by linarith
    ultimately show ?thesis using True by (simp add: min_def max_def)
  next
    case False
    have nonneg: "0 \<le> t * (c - d)" using t False by simp
    have "t * (c - d) \<le> 1 * (c - d)"
      using t False by (intro mult_right_mono) simp_all
    then have le: "t * (c - d) \<le> c - d" by simp
    have neg: "t * (d - c) = - (t * (c - d))" by (simp add: algebra_simps)
    have "d \<le> mapRange v a b c d" using eq le neg by linarith
    moreover have "mapRange v a b c d \<le> c" using eq nonneg neg by linarith
    ultimately show ?thesis using False by (simp add: min_def max_def)
  qed
qed

lemma mapGeoToPixel_inside:
  assumes "latitude (southEast b) < latitude (northWest b)"
    and "longitude (northWest b) < longitude (southEast b)"
    and "0 \<le> width d" "0 \<le> height d"
    and "latitude (southEast b) \<le> latitude g" "latitude g \<le> latitude (northWest b)"
    and "longitude (northWest b) \<le> longitude g" "longitude g \<le> longitude (southEast b)"
  shows "mapGeoToPixel g b d =
     Some \<lparr>pt_x = mapRange (longitude g) (longitude (northWest b)) (longitude (southEast b)) 0 (width d),
           pt_y = mapRange (latitude g) (latitude (northWest b)) (latitude (southEast b)) 0 (height d)\<rparr>"
proof -
  have x: "0 \<le> mapRange (longitude g) (longitude (northWest b)) (longitude (southEast b)) 0 (width d)
      \<and> mapRange (longitude g) (longitude (northWest b)) (longitude (southEast b)) 0 (width d) \<le> width d"
    using mapRange_within [of "longitude (northWest b)" "longitude (southEast b)" "longitude g" 0 "width d"]
      assms by (simp add: min_def max_def)
  have y: "0 \<le> mapRange (latitude g) (latitude (northWest b)) (latitude (southEast b)) 0 (height d)
      \<and> mapRange (latitude g) (latitude (northWest b)) (latitude (southEast b)) 0 (height d) \<le> height d"
    using mapRange_within [of "latitude (northWest b)" "latitude (southEast b)" "latitude g" 0 "height d"]
      assms by (simp add: min_def max_def)
  show ?thesis using x y assms
    by (simp add: mapGeoToPixel_def Let_def min_def max_def)
qed

lemma geo_pixel_geo:
  assumes "0 < width d" "0 < height d"
    and "latitude (southEast b) < latitude g" "latitude g < latitude (northWest b)"
    and "longitude (northWest b) < longitude g" "longitude g < longitude (southEast b)"
  shows "Option.bind (mapGeoToPixel g b d) (\<lambda>p. mapPixelToGeo p b d) = Some g"
proof -
  have "mapGeoToPixel g b d =
     Some \<lparr>pt_x = mapRange (longitude g) (longitude (northWest b)) (longitude (southEast b)) 0 (width d),
           pt_y = mapRange (latitude g) (latitude (northWest b)) (latitude (southEast b)) 0 (height d)\<rparr>"
    using assms by (intro mapGeoToPixel_inside) simp_all
  moreover have "mapRange (mapRange (longitude g) (longitude (northWest b)) (longitude (southEast b)) 0 (width d))
       0 (width d) (longitude (northWest b)) (longitude (southEast b)) = longitude g"
    using assms by (intro mapRange_inverse) simp_all
  moreover have "mapRange (mapRange (latitude g) (latitude (northWest b)) (latitude (southEast b)) 0 (height d))
       0 (height d) (latitude (northWest b)) (latitude (southEast b)) = latitude g"
    using assms by (intro mapRange_inverse) simp_all
  ultimately show ?thesis by (simp add: mapPixelToGeo_def)
qed

lemma pixel_geo_pixel:
  assumes "latitude (southEast b) < latitude (northWest b)"
    and "longitude (northWest b) < longitude (southEast b)"
    and "0 < pt_x p" "pt_x p < width d" "0 < pt_y p" "pt_y p < height d"
  shows "Option.bind (mapPixelToGeo p b d) (\<lambda>g. mapGeoToPixel g b d) = Some p"
proof -
  define g where "g = \<lparr>latitude = mapRange (pt_y p) 0 (height d) (latitude (northWest b)) (latitude (southEast b)),
                       longitude = mapRange (pt_x p) 0 (width d) (longitude (northWest b)) (longitude (southEast b))\<rparr>"
  have pg: "mapPixelToGeo p b d = Some g" by (simp add: mapPixelToGeo_def g_def)
  have lon: "longitude (northWest b) \<le> longitude g \<and> longitude g \<le> longitude (southEast b)"
    using mapRange_within [of 0 "width d" "pt_x p" "longitude (northWest b)" "longitude (southEast b)"] assms
    by (simp add: g_def min_def max_def)
  have lat: "latitude (southEast b) \<le> latitude g \<and> latitude g \<le> latitude (northWest b)"
    using mapRange_within [of 0 "height d" "pt_y p" "latitude (northWest b)" "latitude (southEast b)"] assms
    by (simp add: g_def min_def max_def)
  have "mapGeoToPixel g b d =
     Some \<lparr>pt_x = mapRange (longitude g) (longitude (northWest b)) (longitude (southEast b)) 0 (width d),
           pt_y = mapRange (latitude g) (latitude (northWest b)) (latitude (southEast b)) 0 (height d)\<rparr>"
    using assms lon lat by (intro mapGeoToPixel_inside) simp_all
  moreover have "mapRange (longitude g) (longitude (northWest b)) (longitude (southEast b)) 0 (width d) = pt_x p"
    unfolding g_def using assms by (simp add: mapRange_inverse)
  moreover have "mapRange (latitude g) (latitude (northWest b)) (latitude (southEast b)) 0 (height d) = pt_y p"
    unfolding g_def using assms by (simp add: mapRange_inverse)
  ultimately show ?thesis using pg by simp
qed

text \<open>
  Claim C5. For bounds whose north-west corner lies north and west of the south-east
  corner and an image of positive width and height: a geographic point strictly
  inside the bounds is mapped to a pixel by \<open>mapGeoToPixel\<close> and back to itself by
  \<open>mapPixelToGeo\<close>, and a pixel strictly inside the image is mapped to a geographic
  point by \<open>mapPixelToGeo\<close> and back to itself by \<open>mapGeoToPixel\<close>. In real
  arithmetic the round trip is exact.
\<close>

theorem mapGeoToPixel_mapPixelToGeo_round_trip:
  assumes "0 < width d" "0 < height d"
    and "latitude (southEast b) < latitude (northWest b)"
    and "longitude (northWest b) < longitude (southEast b)"
  shows "(latitude (southEast b) < latitude g \<and> latitude g < latitude (northWest b) \<and>
          longitude (northWest b) < longitude g \<and> longitude g < longitude (southEast b)
          \<longrightarrow> Option.bind (mapGeoToPixel g b d) (\<lambda>p. mapPixelToGeo p b d) = Some g)
       \<and> (0 < pt_x p \<and> pt_x p < width d \<and> 0 < pt_y p \<and> pt_y p < height d
          \<longrightarrow> Option.bind (mapPixelToGeo p b d) (\<lambda>g. mapGeoToPixel g b d) = Some p)"
  using assms geo_pixel_geo [of d b g] pixel_geo_pixel [of b p d] by blast

text \<open>
  The round trip at the default bounds and an 800 by 600 image, for the fix
  (34.0524, -118.2435) and the pixel (695, 505).
\<close>

theorem mapGeoToPixel_mapPixelToGeo_round_trip_witness:
  "Option.bind
     (mapGeoToPixel \<lparr>latitude = 34.0524, longitude = -118.2435\<rparr> FLOOR_PLAN_GEO_BOUNDS
        \<lparr>width = 800, height = 600\<rparr>)
     (\<lambda>p. mapPixelToGeo p FLOOR_PLAN_GEO_BOUNDS \<lparr>width = 800, height = 600\<rparr>)
     = Some \<lparr>latitude = 34.0524, longitude = -118.2435\<rparr>
   \<and> Option.bind
     (mapPixelToGeo \<lparr>pt_x = 695, pt_y = 505\<rparr> FLOOR_PLAN_GEO_BOUNDS
        \<lparr>width = 800, height = 600\<rparr>)
     (\<lambda>g. mapGeoToPixel g FLOOR_PLAN_GEO_BOUNDS \<lparr>width = 800, height = 600\<rparr>)
     = Some \<lparr>pt_x = 695, pt_y = 505\<rparr>"
  using mapGeoToPixel_mapPixelToGeo_round_trip
    [of "\<lparr>width = 800, height = 600\<rparr>" FLOOR_PLAN_GEO_BOUNDS
        "\<lparr>latitude = 34.0524, longitude = -118.2435\<rparr>" "\<lparr>pt_x = 695, pt_y = 505\<rparr>"]
  by (simp add: FLOOR_PLAN_GEO_BOUNDS_def)

text \<open>
  Claim C9, as the code computes it. With the default bounds and an 800 by 600 image
  the fix (34.0524, -118.2435) is mapped to the pixel (400, 1000/3): the longitude is
  halfway between the corners, the latitude is five ninths of the way from the north
  edge to the south edge (the halfway latitude is 34.05245).
\<close>

theorem mapGeoToPixel_scenario:
  "mapGeoToPixel \<lparr>latitude = 34.0524, longitude = -118.2435\<rparr> FLOOR_PLAN_GEO_BOUNDS
     \<lparr>width = 800, height = 600\<rparr> = Some \<lparr>pt_x = 400, pt_y = 1000 / 3\<rparr>"
  by (simp add: mapGeoToPixel_def FLOOR_PLAN_GEO_BOUNDS_def mapRange_def Let_def)

text \<open>
  Claim C9 as stated names the pixel (400, 300); that is not what the projection
  returns for this fix.
\<close>

theorem mapGeoToPixel_scenario_not_300:
  "mapGeoToPixel \<lparr>latitude = 34.0524, longitude = -118.2435\<rparr> FLOOR_PLAN_GEO_BOUNDS
     \<lparr>width = 800, height = 600\<rparr> \<noteq> Some \<lparr>pt_x = 400, pt_y = 300\<rparr>"
  by (simp add: mapGeoToPixel_def FLOOR_PLAN_GEO_BOUNDS_def mapRange_def Let_def)

section \<open>Nearest elevator\<close>

lemma find_unique:
  assumes "m \<in> set xs" "P m" "\<forall>x\<in>set xs. x \<noteq> m \<longrightarrow> \<not> P x"
  shows "List.find P xs = Some m"
  using assms by (induction xs) auto

lemma nearest_scan_find:
  "fst (nearest_scan u es (Some a, Some (calculateDistance u (location a)))) =
     List.find (\<lambda>e. \<forall>e'\<in>set (a # es).
        calculateDistance u (location e) \<le> calculateDistance u (location e')) (a # es)"
proof (induction es arbitrary: a)
  case Nil
  show ?case by simp
next
  case (Cons e es)
  let ?D = "\<lambda>e. calculateDistance u (location e)"
  show ?case
  proof (cases "?D e < ?D a")
    case True
    have "List.find (\<lambda>x. \<forall>e'\<in>set (a # e # es). ?D x \<le> ?D e') (e # es) =
          List.find (\<lambda>x. \<forall>e'\<in>set (e # es). ?D x \<le> ?D e') (e # es)"
      using True by (intro find_cong) auto
    then show ?thesis using True Cons.IH [of e]
      by (simp add: below_min_def Let_def)
  next
    case False
    note na = False
    show ?thesis
    proof (cases "\<forall>e'\<in>set es. ?D a \<le> ?D e'")
      case True
      then show ?thesis using na Cons.IH [of a]
        by (simp add: below_min_def Let_def)
    next
      case False
      have "List.find (\<lambda>x. \<forall>e'\<in>set (a # e # es). ?D x \<le> ?D e') es =
          List.find (\<lambda>x. \<forall>e'\<in>set (a # es). ?D x \<le> ?D e') es"
        using na by (intro find_cong) auto
      moreover have "\<not> (\<forall>e'\<in>set es. ?D e \<le> ?D e') \<or> \<not> ?D e \<le> ?D a"
        using na False by force
      ultimately show ?thesis using na False Cons.IH [of a]
        by (auto simp add: below_min_def Let_def)
    qed
  qed
qed

lemma findNearestElevator_find:
  "findNearestElevator u es =
     List.find (\<lambda>e. \<forall>e'\<in>set es.
        calculateDistance u (location e) \<le> calculateDistance u (location e')) es"
proof (cases es)
  case Nil
  then show ?thesis by (simp add: findNearestElevator_def)
next
  case (Cons a as)
  then show ?thesis using nearest_scan_find [of u as a]
    by (simp add: findNearestElevator_def below_min_def Let_def)
qed

lemma minimum_exists:
  fixes f :: "'a \<Rightarrow> real"
  assumes "xs \<noteq> []"
  shows "\<exists>m\<in>set xs. \<forall>x\<in>set xs. f m \<le> f x"
proof -
  have "finite (f ` set xs)" "f ` set xs \<noteq> {}" using assms by simp_all
  then have "Min (f ` set xs) \<in> f ` set xs" by (rule Min_in)
  then obtain m where m: "m \<in> set xs" "f m = Min (f ` set xs)" by auto
  have "\<forall>x\<in>set xs. f m \<le> f x" using m by simp
  then show ?thesis using m by blast
qed

lemma findNearestElevator_first:
  assumes "es \<noteq> []"
  shows "\<exists>i<length es. findNearestElevator u es = Some (es ! i)
      \<and> (\<forall>j<length es. calculateDistance u (location (es ! i)) \<le> calculateDistance u (location (es ! j)))
      \<and> (\<forall>j<i. calculateDistance u (location (es ! i)) < calculateDistance u (location (es ! j)))"
proof -
  let ?D = "\<lambda>e. calculateDistance u (location e)"
  let ?P = "\<lambda>e. \<forall>e'\<in>set es. ?D e \<le> ?D e'"
  obtain m where "m \<in> set es" "?P m" using minimum_exists [OF assms, of ?D] by blast
  then have "List.find ?P es \<noteq> None" by (auto simp: find_None_iff)
  then obtain x where x: "List.find ?P es = Some x" by blast
  then obtain i where i: "i < length es" "?P (es ! i)" "x = es ! i" "\<forall>j<i. \<not> ?P (es ! j)"
    unfolding find_Some_iff by blast
  have min: "\<forall>j<length es. ?D (es ! i) \<le> ?D (es ! j)" using i(2) by simp
  have "?D (es ! i) < ?D (es ! j)" if "j < i" for j
  proof -
    have "\<not> ?P (es ! j)" using i(4) that by blast
    then obtain e' where e': "e' \<in> set es" "?D e' < ?D (es ! j)" by (auto simp: not_le)
    have "?D (es ! i) \<le> ?D e'" using i(2) e'(1) by blast
    then show ?thesis using e'(2) by linarith
  qed
  then show ?thesis using i(1,3) x min findNearestElevator_find [of u es] by auto
qed

lemma findNearestElevator_unique:
  assumes "m \<in> set es"
    and "\<forall>e\<in>set es. e \<noteq> m \<longrightarrow>
           calculateDistance u (location m) < calculateDistance u (location e)"
  shows "findNearestElevator u es = Some m"
proof -
  let ?D = "\<lambda>e. calculateDistance u (location e)"
  let ?P = "\<lambda>e. \<forall>e'\<in>set es. ?D e \<le> ?D e'"
  have "?P m" using assms(2) by (metis less_eq_real_def order_refl)
  moreover have "\<forall>x\<in>set es. x \<noteq> m \<longrightarrow> \<not> ?P x"
    using assms by (metis not_le)
  ultimately have "List.find ?P es = Some m" using assms(1) by (intro find_unique) 
  then show ?thesis by (simp add: findNearestElevator_find)
qed

text \<open>
  Claim C6. \<open>findNearestElevator\<close> returns nothing for an empty list. For a
  non-empty list it returns the element at some index i whose distance is at most
  every other distance and strictly below the distance of every earlier element: the
  first occurrence of the minimum. When one elevator is strictly nearer than all the
  others, every reordering of the list gives that elevator.
\<close>

theorem findNearestElevator_first_minimum:
  "findNearestElevator u [] = None
   \<and> (es \<noteq> [] \<longrightarrow>
        (\<exists>i<length es. findNearestElevator u es = Some (es ! i)
           \<and> (\<forall>j<length es. calculateDistance u (location (es ! i))
                  \<le> calculateDistance u (location (es ! j)))
           \<and> (\<forall>j<i. calculateDistance u (location (es ! i))
                  < calculateDistance u (location (es ! j)))))
   \<and> (\<forall>m es'. m \<in> set es
          \<and> (\<forall>e\<in>set es. e \<noteq> m \<longrightarrow>
                 calculateDistance u (location m) < calculateDistance u (location e))
          \<and> mset es' = mset es
        \<longrightarrow> findNearestElevator u es = Some m \<and> findNearestElevator u es' = Some m)"
proof (intro conjI impI allI)
  show "findNearestElevator u [] = None" by (simp add: findNearestElevator_def)
next
  assume "es \<noteq> []"
  then show "\<exists>i<length es. findNearestElevator u es = Some (es ! i)
           \<and> (\<forall>j<length es. calculateDistance u (location (es ! i))
                  \<le> calculateDistance u (location (es ! j)))
           \<and> (\<forall>j<i. calculateDistance u (location (es ! i))
                  < calculateDistance u (location (es ! j)))"
    by (rule findNearestElevator_first)
next
  fix m es'
  assume a: "m \<in> set es
          \<and> (\<forall>e\<in>set es. e \<noteq> m \<longrightarrow>
                 calculateDistance u (location m) < calculateDistance u (location e))
          \<and> mset es' = mset es"
  then show "findNearestElevator u es = Some m"
    by (intro findNearestElevator_unique) simp_all
  have "set es' = set es" using a by (metis set_mset_mset)
  then show "findNearestElevator u es' = Some m" using a
    by (intro findNearestElevator_unique) simp_all
qed

text \<open>
  From the origin, A at (3, 4) and B at (4, 3) are both at distance 5 and C at (6, 8)
  is at distance 10: A, listed first, wins the tie, and A is found in either order of
  A and C.
\<close>

theorem findNearestElevator_first_minimum_witness:
  "findNearestElevator \<lparr>pt_x = 0, pt_y = 0\<rparr> [] = None
   \<and> findNearestElevator \<lparr>pt_x = 0, pt_y = 0\<rparr>
       [\<lparr>elev_id = ''A'', elev_name = ''A'', location = \<lparr>pt_x = 3, pt_y = 4\<rparr>, elev_floor = ''1''\<rparr>,
        \<lparr>elev_id = ''B'', elev_name = ''B'', location = \<lparr>pt_x = 4, pt_y = 3\<rparr>, elev_floor = ''1''\<rparr>,
        \<lparr>elev_id = ''C'', elev_name = ''C'', location = \<lparr>pt_x = 6, pt_y = 8\<rparr>, elev_floor = ''1''\<rparr>]
     = Some \<lparr>elev_id = ''A'', elev_name = ''A'', location = \<lparr>pt_x = 3, pt_y = 4\<rparr>, elev_floor = ''1''\<rparr>
   \<and> findNearestElevator \<lparr>pt_x = 0, pt_y = 0\<rparr>
       [\<lparr>elev_id = ''C'', elev_name = ''C'', location = \<lparr>pt_x = 6, pt_y = 8\<rparr>, elev_floor = ''1''\<rparr>,
        \<lparr>elev_id = ''A'', elev_name = ''A'', location = \<lparr>pt_x = 3, pt_y = 4\<rparr>, elev_floor = ''1''\<rparr>]
     = Some \<lparr>elev_id = ''A'', elev_name = ''A'', location = \<lparr>pt_x = 3, pt_y = 4\<rparr>, elev_floor = ''1''\<rparr>
   \<and> findNearestElevator \<lparr>pt_x = 0, pt_y = 0\<rparr>
       [\<lparr>elev_id = ''A'', elev_name = ''A'', location = \<lparr>pt_x = 3, pt_y = 4\<rparr>, elev_floor = ''1''\<rparr>,
        \<lparr>elev_id = ''C'', elev_name = ''C'', location = \<lparr>pt_x = 6, pt_y = 8\<rparr>, elev_floor = ''1''\<rparr>]
     = Some \<lparr>elev_id = ''A'', elev_name = ''A'', location = \<lparr>pt_x = 3, pt_y = 4\<rparr>, elev_floor = ''1''\<rparr>"
proof -
  define u where "u = \<lparr>pt_x = 0, pt_y = 0\<rparr>"
  define A where "A = \<lparr>elev_id = ''A'', elev_name = ''A'', location = \<lparr>pt_x = 3, pt_y = 4\<rparr>, elev_floor = ''1''\<rparr>"
  define B where "B = \<lparr>elev_id = ''B'', elev_name = ''B'', location = \<lparr>pt_x = 4, pt_y = 3\<rparr>, elev_floor = ''1''\<rparr>"
  define C where "C = \<lparr>elev_id = ''C'', elev_name = ''C'', location = \<lparr>pt_x = 6, pt_y = 8\<rparr>, elev_floor = ''1''\<rparr>"
  have dA: "calculateDistance u (location A) = 5"
    using real_sqrt_abs [of 5] by (simp add: calculateDistance_def u_def A_def)
  have dB: "calculateDistance u (location B) = 5"
    using real_sqrt_abs [of 5] by (simp add: calculateDistance_def u_def B_def)
  have dC: "calculateDistance u (location C) = 10"
    using real_sqrt_abs [of 10] by (simp add: calculateDistance_def u_def C_def)
  have AC: "C \<noteq> A" by (simp add: A_def C_def)
  note T = findNearestElevator_first_minimum
  have e: "findNearestElevator u [] = None" using T [of u "[]"] by simp
  have "[A, B, C] \<noteq> []" by simp
  then obtain i where i: "i < length [A, B, C]"
      "findNearestElevator u [A, B, C] = Some ([A, B, C] ! i)"
      "\<forall>j<length [A, B, C]. calculateDistance u (location ([A, B, C] ! i))
          \<le> calculateDistance u (location ([A, B, C] ! j))"
      "\<forall>j<i. calculateDistance u (location ([A, B, C] ! i))
          < calculateDistance u (location ([A, B, C] ! j))"
    using T [of u "[A, B, C]"] by blast
  have "i = 0"
  proof (rule ccontr)
    assume "i \<noteq> 0"
    then consider "i = 1" | "i = 2" using i(1) by fastforce
    then show False
    proof cases
      case 1
      then have "calculateDistance u (location ([A, B, C] ! 1))
          < calculateDistance u (location ([A, B, C] ! 0))" using i(4) by blast
      then show False using dA dB by simp
    next
      case 2
      have "0 < length [A, B, C]" by simp
      then have "calculateDistance u (location ([A, B, C] ! i))
          \<le> calculateDistance u (location ([A, B, C] ! 0))" using i(3) by blast
      then show False using 2 dA dC by simp
    qed
  qed
  then have tie: "findNearestElevator u [A, B, C] = Some A" using i(2) by simp
  have uq: "findNearestElevator u [A, C] = Some A \<and> findNearestElevator u [C, A] = Some A"
    using T [of u "[A, C]"] dA dC AC by simp
  show ?thesis using e tie uq unfolding u_def A_def B_def C_def by simp
qed

section \<open>Properties of the handlers\<close>

lemma run_append: "run (as @ bs) s = run bs (run as s)"
  by (induction as arbitrary: s) simp_all

lemma requests_append: "requests (as @ bs) = requests as @ requests bs"
  by (induction as rule: requests.induct) simp_all

lemma flag_writes_append: "flag_writes (as @ bs) = flag_writes as @ flag_writes bs"
  by (induction as rule: flag_writes.induct) simp_all

lemma flag_after_run:
  "isFetchingAiPath (run as s) =
     (if flag_writes as = [] then isFetchingAiPath s else last (flag_writes as))"
proof (induction as arbitrary: s)
  case Nil
  show ?case by simp
next
  case (Cons a as)
  show ?case by (cases a) (simp_all add: Cons.IH)
qed

lemma stopGpsNavigation_quiet:
  "requests (stopGpsNavigation m s) = [] \<and> flag_writes (stopGpsNavigation m s) = []"
  by (simp add: stopGpsNavigation_def split: option.split)

lemma fetch_sync_requests:
  "requests (fetch_sync ai start target plan) =
     (if \<not> ai \<or> imageUrl plan = [] then [] else [(start, target)])"
  by (simp add: fetch_sync_def)

lemma fetch_sync_flag_writes:
  "flag_writes (fetch_sync ai start target plan) =
     (if \<not> ai \<or> imageUrl plan = [] then [] else [True])"
  by (simp add: fetch_sync_def)

lemma fetch_resume_flag_writes: "flag_writes (fetch_resume v r start target) = [False]"
  by (induction v r start target rule: fetch_resume.induct)
     (simp_all add: success_block_def catch_block_def finally_block_def)

lemma fetch_resume_requests: "requests (fetch_resume v r start target) = []"
  by (induction v r start target rule: fetch_resume.induct)
     (simp_all add: success_block_def catch_block_def finally_block_def)

lemma fetch_resume_last: "last (fetch_resume v r start target) = SetIsFetchingAiPath False"
  by (induction v r start target rule: fetch_resume.induct)
     (simp_all add: success_block_def catch_block_def finally_block_def)

lemma maintain_path_quiet:
  "isFetchingAiPath s \<Longrightarrow>
   requests (maintain_path ai s plan sel px) = [] \<and> flag_writes (maintain_path ai s plan sel px) = []"
  by (simp add: maintain_path_def Let_def split: option.split)

lemma maintain_path_idle:
  "\<not> isFetchingAiPath s \<Longrightarrow>
   length (requests (maintain_path ai s plan sel px)) \<le> Suc 0 \<and>
   flag_writes (maintain_path ai s plan sel px) =
     (if requests (maintain_path ai s plan sel px) = [] then [] else [True])"
  by (simp add: maintain_path_def Let_def fetch_sync_requests fetch_sync_flag_writes
      split: option.split)

lemma processGpsLocation_pending:
  "isFetchingAiPath s \<Longrightarrow>
   requests (processGpsLocation ai g c s) = [] \<and> flag_writes (processGpsLocation ai g c s) = []"
  by (simp add: processGpsLocation_def requests_append flag_writes_append
      stopGpsNavigation_quiet maintain_path_quiet split: option.split)

lemma processGpsLocation_idle:
  "\<not> isFetchingAiPath s \<Longrightarrow>
   length (requests (processGpsLocation ai g c s)) \<le> Suc 0 \<and>
   flag_writes (processGpsLocation ai g c s) =
     (if requests (processGpsLocation ai g c s) = [] then [] else [True])"
  by (simp add: processGpsLocation_def requests_append flag_writes_append Let_def
      stopGpsNavigation_quiet maintain_path_idle fetch_sync_requests fetch_sync_flag_writes
      split: option.split)

lemma handleManualMapClick_pending:
  "isFetchingAiPath s \<Longrightarrow> handleManualMapClick ai p s = []"
  by (simp add: handleManualMapClick_def)

lemma handleManualMapClick_idle:
  "length (requests (handleManualMapClick ai p s)) \<le> Suc 0 \<and>
   flag_writes (handleManualMapClick ai p s) =
     (if requests (handleManualMapClick ai p s) = [] then [] else [True])"
  by (simp add: handleManualMapClick_def requests_append flag_writes_append
      stopGpsNavigation_quiet fetch_sync_requests fetch_sync_flag_writes
      split: option.split)

lemma handleElevatorClick_pending:
  "isFetchingAiPath s \<Longrightarrow> handleElevatorClick ai i s = []"
  by (simp add: handleElevatorClick_def split: option.split)

lemma handleElevatorClick_idle:
  "length (requests (handleElevatorClick ai i s)) \<le> Suc 0 \<and>
   flag_writes (handleElevatorClick ai i s) =
     (if requests (handleElevatorClick ai i s) = [] then [] else [True])"
  by (simp add: handleElevatorClick_def requests_append flag_writes_append Let_def
      stopGpsNavigation_quiet fetch_sync_requests fetch_sync_flag_writes
      split: option.split)

lemma deriveEffect_quiet:
  "requests (deriveEffect s) = [] \<and> flag_writes (deriveEffect s) = []"
  by (simp add: deriveEffect_def Let_def split: option.split prod.split)


lemma fetch_sync_state:
  "run (fetch_sync ai start target plan) s =
     (if \<not> ai \<or> imageUrl plan = []
      then s\<lparr>gpsStatus := AiUnavailable,
             path := Some [start, location target],
             aiPathInstructions := Some [''AI pathfinding is currently unavailable.'']\<rparr>
      else s\<lparr>isFetchingAiPath := True, aiPathInstructions := None, path := None,
             gpsStatus := AiPlanning (elev_name target)\<rparr>)"
  by (simp add: fetch_sync_def calculatePath_def)

lemma fetch_resume_state:
  "run (fetch_resume v r start target) s =
     (case r of
        Parsed (Some pc) (Some ins) \<Rightarrow>
          if 2 \<le> length pc \<and> 0 < length ins then
            s\<lparr>path := Some (validatedPath pc start target),
              aiPathInstructions := Some ins,
              gpsStatus := AiPathGenerated (elev_name target),
              isFetchingAiPath := False\<rparr>
          else (case v of
             ListingA \<Rightarrow>
               s\<lparr>gpsStatus := AiPathfindingFailed (elev_name target),
                 path := Some [start, location target],
                 aiPathInstructions := Some (catch_instructions ListingA),
                 isFetchingAiPath := False\<rparr>
           | ListingB \<Rightarrow>
               s\<lparr>gpsStatus := AiNoMultiSegmentPath (elev_name target),
                 path := Some [start, location target],
                 aiPathInstructions := Some (if 0 < length ins then ins else partial_instructions),
                 isFetchingAiPath := False\<rparr>)
      | _ \<Rightarrow>
          s\<lparr>gpsStatus := AiPathfindingFailed (elev_name target),
            path := Some [start, location target],
            aiPathInstructions := Some (catch_instructions v),
            isFetchingAiPath := False\<rparr>)"
  by (induction v r start target rule: fetch_resume.induct)
     (simp_all add: success_block_def catch_block_def finally_block_def calculatePath_def
        split: option.split)


lemma fetch_resume_frame:
  "userLocation (run (fetch_resume v r start target) s) = userLocation s
   \<and> selectedElevator (run (fetch_resume v r start target) s) = selectedElevator s"
  by (simp add: fetch_resume_state
      split: backend_result.split option.split listing.split)


lemma fetch_frame:
  "userLocation (run (fetchAiPathAndInstructions v ai r start target plan) s) = userLocation s
   \<and> selectedElevator (run (fetchAiPathAndInstructions v ai r start target plan) s)
       = selectedElevator s"
  by (simp add: fetchAiPathAndInstructions_def run_append fetch_resume_frame fetch_sync_state)

lemma fetch_resume_unusable:
  assumes "unusable r"
  shows "run (fetch_resume v r start target) s =
      s\<lparr>gpsStatus := AiPathfindingFailed (elev_name target),
        path := Some [start, location target],
        aiPathInstructions := Some (catch_instructions v),
        isFetchingAiPath := False\<rparr>"
  using assms
  by (cases r rule: unusable.cases) (simp_all add: fetch_resume_state del: fetch_resume.simps)

text \<open>
  Claim C3. In both listings, when the request has been sent and the backend call
  throws, times out or returns something without the structure asked for, the stored
  path is the straight line from the start to the target's location and the stored
  instructions are the listing's fixed list of three non-empty lines.
\<close>

theorem fallback_when_backend_fails:
  assumes "ai" "imageUrl plan \<noteq> []" "unusable r"
  shows "path (run (fetchAiPathAndInstructions v ai r start target plan) s)
           = Some [start, location target]
       \<and> aiPathInstructions (run (fetchAiPathAndInstructions v ai r start target plan) s)
           = Some (catch_instructions v)
       \<and> length (catch_instructions v) = 3
       \<and> (\<forall>line\<in>set (catch_instructions v). line \<noteq> [])
       \<and> gpsStatus (run (fetchAiPathAndInstructions v ai r start target plan) s)
           = AiPathfindingFailed (elev_name target)"
proof -
  have "run (fetchAiPathAndInstructions v ai r start target plan) s =
      run (fetch_resume v r start target) (run (fetch_sync ai start target plan) s)"
    using assms by (simp add: fetchAiPathAndInstructions_def run_append)
  moreover have "length (catch_instructions v) = 3"
    by (simp add: catch_instructions_def)
  moreover have "\<forall>line\<in>set (catch_instructions v). line \<noteq> []"
    by (cases v) (simp_all add: catch_instructions_def)
  ultimately show ?thesis using assms(3)
    by (simp add: fetch_resume_unusable)
qed

text \<open>
  The failure fallback for a request from (100, 100) to E1: the straight line and the
  three lines of each listing.
\<close>

theorem fallback_when_backend_fails_witness:
  "path (run (fetchAiPathAndInstructions ListingA True Failed \<lparr>pt_x = 100, pt_y = 100\<rparr> E1 plan1) idle)
     = Some [\<lparr>pt_x = 100, pt_y = 100\<rparr>, \<lparr>pt_x = 700, pt_y = 500\<rparr>]
   \<and> aiPathInstructions
       (run (fetchAiPathAndInstructions ListingA True Failed \<lparr>pt_x = 100, pt_y = 100\<rparr> E1 plan1) idle)
     = Some [''AI was unable to determine a detailed path.'',
             ''A straight line to the elevator is shown on the map.'',
             ''Please use visual cues on the floor plan to navigate.'']
   \<and> aiPathInstructions
       (run (fetchAiPathAndInstructions ListingB True (Parsed None (Some [''Go.'']))
          \<lparr>pt_x = 100, pt_y = 100\<rparr> E1 plan1) idle)
     = Some [''AI pathfinding system encountered an error.'',
             ''A straight line to the elevator is shown on the map.'',
             ''Please use visual cues on the floor plan to navigate.'']"
  using fallback_when_backend_fails
          [of True plan1 Failed ListingA "\<lparr>pt_x = 100, pt_y = 100\<rparr>" E1 idle]
        fallback_when_backend_fails
          [of True plan1 "Parsed None (Some [''Go.''])" ListingB "\<lparr>pt_x = 100, pt_y = 100\<rparr>" E1 idle]
  by (simp add: plan1_def E1_def catch_instructions_def)

lemma fetch_resume_partial:
  assumes "length pc < 2 \<or> ins = []"
  shows "run (fetch_resume ListingB (Parsed (Some pc) (Some ins)) start target) s =
      s\<lparr>gpsStatus := AiNoMultiSegmentPath (elev_name target),
        path := Some [start, location target],
        aiPathInstructions := Some (if ins \<noteq> [] then ins else partial_instructions),
        isFetchingAiPath := False\<rparr>"
    and "run (fetch_resume ListingA (Parsed (Some pc) (Some ins)) start target) s =
      s\<lparr>gpsStatus := AiPathfindingFailed (elev_name target),
        path := Some [start, location target],
        aiPathInstructions := Some (catch_instructions ListingA),
        isFetchingAiPath := False\<rparr>"
proof -
  have neg: "\<not> (2 \<le> length pc \<and> 0 < length ins)" using assms by auto
  have B: "fetch_resume ListingB (Parsed (Some pc) (Some ins)) start target =
      [SetGpsStatus (AiNoMultiSegmentPath (elev_name target)),
       SetPath (Some (calculatePath start (location target))),
       SetAiPathInstructions (Some (if 0 < length ins then ins else partial_instructions))]
      @ finally_block"
    by (simp only: fetch_resume.simps if_not_P [OF neg])
  have A: "fetch_resume ListingA (Parsed (Some pc) (Some ins)) start target =
      catch_block ListingA start target @ finally_block"
    by (simp only: fetch_resume.simps if_not_P [OF neg])
  show "run (fetch_resume ListingB (Parsed (Some pc) (Some ins)) start target) s =
      s\<lparr>gpsStatus := AiNoMultiSegmentPath (elev_name target),
        path := Some [start, location target],
        aiPathInstructions := Some (if ins \<noteq> [] then ins else partial_instructions),
        isFetchingAiPath := False\<rparr>"
    unfolding B by (simp add: finally_block_def calculatePath_def)
  show "run (fetch_resume ListingA (Parsed (Some pc) (Some ins)) start target) s =
      s\<lparr>gpsStatus := AiPathfindingFailed (elev_name target),
        path := Some [start, location target],
        aiPathInstructions := Some (catch_instructions ListingA),
        isFetchingAiPath := False\<rparr>"
    unfolding A by (simp add: catch_block_def finally_block_def calculatePath_def)
qed

text \<open>
  Claim C4, as the code has it. For a parsed answer with a coordinate list and an
  instruction list of which the coordinates are fewer than two or the instructions
  are empty: ListingB stores the straight line and keeps the instructions when there
  are any, otherwise stores its two generic lines; ListingA treats the answer as a
  failure and stores the straight line with its fixed three lines, whatever
  instructions came back.
\<close>

theorem partial_failure_by_listing:
  assumes "ai" "imageUrl plan \<noteq> []" "length pc < 2 \<or> ins = []"
  shows "path (run (fetchAiPathAndInstructions ListingB ai (Parsed (Some pc) (Some ins))
                  start target plan) s) = Some [start, location target]
       \<and> aiPathInstructions (run (fetchAiPathAndInstructions ListingB ai
                  (Parsed (Some pc) (Some ins)) start target plan) s)
           = Some (if ins \<noteq> [] then ins else partial_instructions)
       \<and> path (run (fetchAiPathAndInstructions ListingA ai (Parsed (Some pc) (Some ins))
                  start target plan) s) = Some [start, location target]
       \<and> aiPathInstructions (run (fetchAiPathAndInstructions ListingA ai
                  (Parsed (Some pc) (Some ins)) start target plan) s)
           = Some (catch_instructions ListingA)"
proof -
  have "run (fetchAiPathAndInstructions v ai (Parsed (Some pc) (Some ins)) start target plan) s =
      run (fetch_resume v (Parsed (Some pc) (Some ins)) start target)
        (run (fetch_sync ai start target plan) s)" for v
    using assms(1,2) by (simp add: fetchAiPathAndInstructions_def run_append)
  then show ?thesis
    by (simp add: fetch_resume_partial [OF assms(3)] del: fetch_resume.simps)
qed

text \<open>
  ListingB keeps the one instruction that came with an empty path, and substitutes the
  two generic lines when a one-point path came with no instructions.
\<close>

theorem partial_failure_by_listing_witness:
  "aiPathInstructions (run (fetchAiPathAndInstructions ListingB True
        (Parsed (Some []) (Some [''No clear path.''])) \<lparr>pt_x = 100, pt_y = 100\<rparr> E1 plan1) idle)
     = Some [''No clear path.'']
   \<and> aiPathInstructions (run (fetchAiPathAndInstructions ListingB True
        (Parsed (Some [\<lparr>pt_x = 1, pt_y = 1\<rparr>]) (Some [])) \<lparr>pt_x = 100, pt_y = 100\<rparr> E1 plan1) idle)
     = Some [''AI was unable to determine a detailed path.'',
             ''A straight line to the elevator is shown on the map.'']
   \<and> path (run (fetchAiPathAndInstructions ListingB True
        (Parsed (Some []) (Some [''No clear path.''])) \<lparr>pt_x = 100, pt_y = 100\<rparr> E1 plan1) idle)
     = Some [\<lparr>pt_x = 100, pt_y = 100\<rparr>, \<lparr>pt_x = 700, pt_y = 500\<rparr>]"
  using partial_failure_by_listing
          [of True plan1 "[]" "[''No clear path.'']" "\<lparr>pt_x = 100, pt_y = 100\<rparr>" E1 idle]
        partial_failure_by_listing
          [of True plan1 "[\<lparr>pt_x = 1, pt_y = 1\<rparr>]" "[]" "\<lparr>pt_x = 100, pt_y = 100\<rparr>" E1 idle]
  by (simp add: plan1_def E1_def partial_instructions_def)

text \<open>
  Claim C4 as stated fails in ListingA: the instruction that came with an empty path
  is replaced by the three fixed lines.
\<close>

theorem listingA_discards_instructions:
  "aiPathInstructions (run (fetchAiPathAndInstructions ListingA True
        (Parsed (Some []) (Some [''No clear path.''])) \<lparr>pt_x = 100, pt_y = 100\<rparr> E1 plan1) idle)
     = Some [''AI was unable to determine a detailed path.'',
             ''A straight line to the elevator is shown on the map.'',
             ''Please use visual cues on the floor plan to navigate.'']
   \<and> aiPathInstructions (run (fetchAiPathAndInstructions ListingA True
        (Parsed (Some []) (Some [''No clear path.''])) \<lparr>pt_x = 100, pt_y = 100\<rparr> E1 plan1) idle)
     \<noteq> Some [''No clear path.'']"
  by (simp add: fetchAiPathAndInstructions_def run_append fetch_resume_state plan1_def
      catch_instructions_def del: fetch_resume.simps)

text \<open>
  Claim C10. While the pending flag is set, a tap on the map and a tap on an elevator
  marker make no call at all: no state setter, no watch call, no request. The state
  and the outstanding requests are as before.
\<close>

theorem taps_dropped_while_pending:
  assumes "isFetchingAiPath s"
  shows "handleManualMapClick ai point s = []
       \<and> handleElevatorClick ai elevatorId s = []
       \<and> run (handleManualMapClick ai point s) s = s
       \<and> run (handleElevatorClick ai elevatorId s) s = s
       \<and> step v ai (MapClick point) (s, pending) = (s, pending)
       \<and> step v ai (ElevatorClick elevatorId) (s, pending) = (s, pending)"
  using assms
  by (simp add: handleManualMapClick_pending handleElevatorClick_pending handle_def)

text \<open>
  In the navigating scenario both taps are dropped once the flag is set, and both do
  something when it is not.
\<close>

theorem taps_dropped_while_pending_witness:
  "handleManualMapClick True \<lparr>pt_x = 300, pt_y = 200\<rparr> (navigating\<lparr>isFetchingAiPath := True\<rparr>) = []
   \<and> handleElevatorClick True ''E1'' (navigating\<lparr>isFetchingAiPath := True\<rparr>) = []
   \<and> handleManualMapClick True \<lparr>pt_x = 300, pt_y = 200\<rparr> navigating \<noteq> []
   \<and> handleElevatorClick True ''E1'' navigating \<noteq> []"
proof -
  have "handleManualMapClick True \<lparr>pt_x = 300, pt_y = 200\<rparr> navigating \<noteq> []"
    by (simp add: handleManualMapClick_def navigating_def idle_def stopGpsNavigation_def)
  moreover have "handleElevatorClick True ''E1'' navigating \<noteq> []"
    by (simp add: handleElevatorClick_def navigating_def idle_def plan1_def E1_def
        stopGpsNavigation_def Let_def)
  ultimately show ?thesis
    using taps_dropped_while_pending
            [of "navigating\<lparr>isFetchingAiPath := True\<rparr>" True "\<lparr>pt_x = 300, pt_y = 200\<rparr>" "''E1''"]
    by simp
qed


lemma mapGeoToPixel_None_iff:
  "mapGeoToPixel g b d = None \<longleftrightarrow>
     latitude g > latitude (northWest b) \<or> latitude g < latitude (southEast b) \<or>
     longitude g < longitude (northWest b) \<or> longitude g > longitude (southEast b)"
  by (auto simp: mapGeoToPixel_def Let_def)

lemma processGpsLocation_outside:
  assumes "currentFloorPlan s = Some plan" "width (dimensions plan) \<noteq> 0"
    and "mapGeoToPixel g FLOOR_PLAN_GEO_BOUNDS (dimensions plan) = None"
  shows "processGpsLocation ai g c s =
     [SetUserGeoLocation (Some g), SetIsGpsDerived False,
      SetGpsStatus
        (case selectedElevator s of
           Some sel \<Rightarrow>
             if isNavigatingWithGps s then NavigatingOutsideMappedArea (elev_name sel)
             else OutsideMappedArea g
         | None \<Rightarrow> OutsideMappedArea g)]"
  using assms by (simp add: processGpsLocation_def)

text \<open>
  Claim C8. With a plan loaded, a fix whose latitude or longitude lies outside the
  calibrated bounds fails projection, and processing it changes only the stored
  geographic fix, the live flag and the status line: the pixel user location, the
  path and the target elevator are as before, the status says that the user is
  outside the mapped area, no request is sent and no watch is cleared.
\<close>

theorem fix_outside_bounds_keeps_state:
  assumes "currentFloorPlan s = Some plan" "width (dimensions plan) \<noteq> 0"
    and "latitude g > latitude (northWest FLOOR_PLAN_GEO_BOUNDS)
       \<or> latitude g < latitude (southEast FLOOR_PLAN_GEO_BOUNDS)
       \<or> longitude g < longitude (northWest FLOOR_PLAN_GEO_BOUNDS)
       \<or> longitude g > longitude (southEast FLOOR_PLAN_GEO_BOUNDS)"
  shows "mapGeoToPixel g FLOOR_PLAN_GEO_BOUNDS (dimensions plan) = None
       \<and> run (processGpsLocation ai g c s) s =
           s\<lparr>userGeoLocation := Some g, isGpsDerived := False,
             gpsStatus := gpsStatus (run (processGpsLocation ai g c s) s)\<rparr>
       \<and> userLocation (run (processGpsLocation ai g c s) s) = userLocation s
       \<and> path (run (processGpsLocation ai g c s) s) = path s
       \<and> selectedElevator (run (processGpsLocation ai g c s) s) = selectedElevator s
       \<and> outside_mapped_area (gpsStatus (run (processGpsLocation ai g c s) s))
       \<and> requests (processGpsLocation ai g c s) = []
       \<and> (\<forall>w. ClearWatch w \<notin> set (processGpsLocation ai g c s))"
proof -
  have none: "mapGeoToPixel g FLOOR_PLAN_GEO_BOUNDS (dimensions plan) = None"
    using assms(3) by (simp add: mapGeoToPixel_None_iff)
  note tr = processGpsLocation_outside [OF assms(1,2) none]
  show ?thesis using none
    by (simp add: tr split: option.split)
qed

text \<open>
  In the navigating scenario a fix north of the bounds leaves the user at (100, 100),
  the stored path and the target E1 in place.
\<close>

theorem fix_outside_bounds_keeps_state_witness:
  "mapGeoToPixel fix_outside FLOOR_PLAN_GEO_BOUNDS (dimensions plan1) = None
   \<and> userLocation (run (processGpsLocation True fix_outside None navigating) navigating)
       = Some \<lparr>pt_x = 100, pt_y = 100\<rparr>
   \<and> path (run (processGpsLocation True fix_outside None navigating) navigating)
       = Some [\<lparr>pt_x = 100, pt_y = 100\<rparr>, \<lparr>pt_x = 400, pt_y = 100\<rparr>, \<lparr>pt_x = 700, pt_y = 500\<rparr>]
   \<and> selectedElevator (run (processGpsLocation True fix_outside None navigating) navigating)
       = Some E1
   \<and> outside_mapped_area
       (gpsStatus (run (processGpsLocation True fix_outside None navigating) navigating))"
  using fix_outside_bounds_keeps_state [of navigating plan1 fix_outside True None]
  by (simp add: navigating_def idle_def plan1_def fix_outside_def FLOOR_PLAN_GEO_BOUNDS_def)






lemma scenario_projections:
  "mapGeoToPixel fix_near FLOOR_PLAN_GEO_BOUNDS (dimensions plan1) = Some \<lparr>pt_x = 695, pt_y = 505\<rparr>"
  "mapGeoToPixel fix_far FLOOR_PLAN_GEO_BOUNDS (dimensions plan1) = Some \<lparr>pt_x = 600, pt_y = 400\<rparr>"
  by (simp_all add: mapGeoToPixel_def FLOOR_PLAN_GEO_BOUNDS_def mapRange_def Let_def
      fix_near_def fix_far_def plan1_def)











lemma handleManualMapClick_to_E1:
  assumes "currentFloorPlan s = Some plan1" "\<not> isAnalyzingPlan s" "\<not> isFetchingAiPath s"
  shows "handleManualMapClick True \<lparr>pt_x = 100, pt_y = 100\<rparr> s =
      stopGpsNavigation (Some ManualLocationSet) s @
      [SetUserLocation (Some \<lparr>pt_x = 100, pt_y = 100\<rparr>), SetIsGpsDerived False,
       SetAiPathInstructions None, SetSelectedElevator (Some E1),
       SetIsFetchingAiPath True, SetAiPathInstructions None, SetPath None,
       SetGpsStatus (AiPlanning (elev_name E1)),
       GenerateContent \<lparr>pt_x = 100, pt_y = 100\<rparr> E1 plan1,
       SetTargetElevatorGps (mapPixelToGeo (location E1) FLOOR_PLAN_GEO_BOUNDS (dimensions plan1)),
       SetIsNavigatingWithGps True]"
proof -
  have n: "findNearestElevator \<lparr>pt_x = 100, pt_y = 100\<rparr> (elevators plan1) = Some E1"
    by (simp add: findNearestElevator_def plan1_def below_min_def)
  have img: "imageUrl plan1 \<noteq> []" by (simp add: plan1_def)
  show ?thesis using assms n img
    by (simp add: handleManualMapClick_def fetch_sync_def)
qed








lemma targeted_fields:
  "currentFloorPlan targeted = Some plan1"
  "userLocation targeted = None"
  "selectedElevator targeted = Some E1"
  "\<not> isFetchingAiPath targeted"
  "\<not> isNavigatingWithGps targeted"
  "\<not> isAnalyzingPlan targeted"
proof -
  define s where "s = run (handleElevatorClick True ''E1'' idle) idle"
  have f: "List.find (\<lambda>e. elev_id e = ''E1'') (elevators plan1) = Some E1"
    by (simp add: plan1_def E1_def)
  have el: "elevators plan1 \<noteq> []" by (simp add: plan1_def)
  have i: "currentFloorPlan idle = Some plan1" "\<not> isAnalyzingPlan idle"
      "\<not> isFetchingAiPath idle" "userLocation idle = None" "\<not> isNavigatingWithGps idle"
    by (simp_all add: idle_def)
  have acts: "handleElevatorClick True ''E1'' idle =
      stopGpsNavigation None idle @
      [SetSelectedElevator (Some E1), SetAiPathInstructions None,
       SetTargetElevatorGps (mapPixelToGeo (location E1) FLOOR_PLAN_GEO_BOUNDS (dimensions plan1)),
       SetPath None,
       SetGpsStatus (Targeting (elev_name E1)
         (mapPixelToGeo (location E1) FLOOR_PLAN_GEO_BOUNDS (dimensions plan1)))]"
    using i f el by (simp add: handleElevatorClick_def Let_def)
  have s: "currentFloorPlan s = Some plan1" "userLocation s = None"
      "selectedElevator s = Some E1" "\<not> isFetchingAiPath s" "\<not> isNavigatingWithGps s"
      "\<not> isAnalyzingPlan s"
    unfolding s_def acts using i
    by (simp_all add: run_append stopGpsNavigation_def split: option.split)
  have t: "targeted = run (deriveEffect s) s" by (simp add: targeted_def s_def Let_def)
  have d: "deriveEffect s = [SetNearestElevator None, SetPath None]"
    using s by (simp add: deriveEffect_def)
  show "currentFloorPlan targeted = Some plan1"
    "userLocation targeted = None"
    "selectedElevator targeted = Some E1"
    "\<not> isFetchingAiPath targeted"
    "\<not> isNavigatingWithGps targeted"
    "\<not> isAnalyzingPlan targeted"
    using s by (simp_all add: t d)
qed

lemma requested_fields:
  "requests (handleManualMapClick True \<lparr>pt_x = 100, pt_y = 100\<rparr>
      (run (lookupEffect True targeted) targeted)) = [(\<lparr>pt_x = 100, pt_y = 100\<rparr>, E1)]"
  "isFetchingAiPath requested"
  "selectedElevator requested = Some E1"
proof -
  define s0 where "s0 = run (lookupEffect True targeted) targeted"
  have le: "lookupEffect True targeted = [SetGpsStatus AttemptingInitialGps, GetCurrentPosition]"
    using targeted_fields(1) by (simp add: lookupEffect_def)
  have s0: "currentFloorPlan s0 = Some plan1" "\<not> isAnalyzingPlan s0" "\<not> isFetchingAiPath s0"
    unfolding s0_def le using targeted_fields by simp_all
  note acts = handleManualMapClick_to_E1 [OF s0]
  show "requests (handleManualMapClick True \<lparr>pt_x = 100, pt_y = 100\<rparr>
      (run (lookupEffect True targeted) targeted)) = [(\<lparr>pt_x = 100, pt_y = 100\<rparr>, E1)]"
    using acts by (simp add: s0_def requests_append stopGpsNavigation_quiet)
  define s where "s = run (handleManualMapClick True \<lparr>pt_x = 100, pt_y = 100\<rparr> s0) s0"
  have s: "isFetchingAiPath s" "selectedElevator s = Some E1"
    unfolding s_def acts by (simp_all add: run_append stopGpsNavigation_def split: option.split)
  have t: "requested = run (deriveEffect s) s"
    by (simp add: requested_def s_def s0_def Let_def)
  have "flag_writes (deriveEffect s) = []" by (simp add: deriveEffect_quiet)
  then show "isFetchingAiPath requested" using s by (simp add: t flag_after_run)
  have "selectedElevator (run (deriveEffect s) s) = selectedElevator s"
    by (simp add: deriveEffect_def Let_def split: option.split prod.split)
  then show "selectedElevator requested = Some E1" using s by (simp add: t)
qed

lemma stale_lookup_calls:
  "processGpsLocation True fix_far (Some lookup_message) targeted =
     [SetUserGeoLocation (Some fix_far), SetUserLocation (Some \<lparr>pt_x = 600, pt_y = 400\<rparr>),
      SetIsGpsDerived True,
      SetIsFetchingAiPath True, SetAiPathInstructions None, SetPath None,
      SetGpsStatus (AiPlanning (elev_name E1)),
      GenerateContent \<lparr>pt_x = 600, pt_y = 400\<rparr> E1 plan1,
      SetGpsStatus (GpsMapped (Some lookup_message) fix_far)]"
proof -
  have dim: "width (dimensions plan1) \<noteq> 0" "imageUrl plan1 \<noteq> []" by (simp_all add: plan1_def)
  show ?thesis
    using targeted_fields dim scenario_projections(2)
    by (simp add: processGpsLocation_def fetch_sync_def)
qed

text \<open>
  Claim C2 at an input on which the code breaks it. The render after the tap on E1
  starts a one-shot lookup. The tap on the map then sends a request and sets the
  pending flag. When the lookup is answered, its callback reads the state of the
  render that started it, in which the flag is clear, an elevator is selected and
  navigation is off: it sends a second request while the first is outstanding. When
  the first request then settles, the flag is cleared while the second is still
  outstanding.
\<close>

theorem stale_lookup_sends_second_request:
  "GetCurrentPosition \<in> set (lookupEffect True targeted)
   \<and> requests (handleManualMapClick True \<lparr>pt_x = 100, pt_y = 100\<rparr>
        (run (lookupEffect True targeted) targeted)) = [(\<lparr>pt_x = 100, pt_y = 100\<rparr>, E1)]
   \<and> isFetchingAiPath requested
   \<and> requests (processGpsLocation True fix_far (Some lookup_message) targeted)
       = [(\<lparr>pt_x = 600, pt_y = 400\<rparr>, E1)]
   \<and> snd (handle (processGpsLocation True fix_far (Some lookup_message) targeted)
          (requested, [(\<lparr>pt_x = 100, pt_y = 100\<rparr>, E1)]))
       = [(\<lparr>pt_x = 100, pt_y = 100\<rparr>, E1), (\<lparr>pt_x = 600, pt_y = 400\<rparr>, E1)]
   \<and> \<not> isFetchingAiPath
         (run (fetch_resume ListingA Failed \<lparr>pt_x = 100, pt_y = 100\<rparr> E1) answered)"
proof -
  have "GetCurrentPosition \<in> set (lookupEffect True targeted)"
    using targeted_fields(1) by (simp add: lookupEffect_def)
  moreover have "requests (processGpsLocation True fix_far (Some lookup_message) targeted)
       = [(\<lparr>pt_x = 600, pt_y = 400\<rparr>, E1)]"
    by (simp add: stale_lookup_calls)
  moreover have "\<not> isFetchingAiPath
         (run (fetch_resume ListingA Failed \<lparr>pt_x = 100, pt_y = 100\<rparr> E1) answered)"
    by (simp add: flag_after_run fetch_resume_flag_writes del: fetch_resume.simps)
  ultimately show ?thesis
    using requested_fields(1,2) by (simp add: handle_def)
qed


end
